theory Spec2Isabelle
  imports Main "HOL-Library.Word" "HOL-Library.Sublist"
begin

section \<open>The WhatsApp connection service of DentaDesk\<close>

text \<open>
  A shallow embedding of \<^verbatim>\<open>src/electron/services/whatsapp.ts\<close>: the module-level variables
  become one record, every exported function and every event handler becomes a function
  on that record, \<^verbatim>\<open>setTimeout\<close> appends a pending callback to a list, and a broadcast to
  the renderer windows appends a notification to a log.
\<close>

subsection \<open>JavaScript strings\<close>

text \<open>
  A JavaScript string is a sequence of UTF-16 code units. \<open>js\<close> turns an ASCII literal
  into one.
\<close>

type_synonym jsstring = "16 word list"

definition js :: "string \<Rightarrow> jsstring" where
  "js cs = map of_char cs"

text \<open>
  The characters that \<^verbatim>\<open>\s\<close> matches and \<^verbatim>\<open>String.prototype.trim\<close> removes: the white space
  and line terminator code points of ECMAScript.
\<close>

definition is_space :: "16 word \<Rightarrow> bool" where
  "is_space c \<longleftrightarrow>
     c = 0x09 \<or> c = 0x0A \<or> c = 0x0B \<or> c = 0x0C \<or> c = 0x0D \<or> c = 0x20 \<or> c = 0xA0 \<or>
     c = 0x1680 \<or> (0x2000 \<le> c \<and> c \<le> 0x200A) \<or> c = 0x2028 \<or> c = 0x2029 \<or>
     c = 0x202F \<or> c = 0x205F \<or> c = 0x3000 \<or> c = 0xFEFF"

definition trim :: "jsstring \<Rightarrow> jsstring" where
  "trim t = rev (dropWhile is_space (rev (dropWhile is_space t)))"

text \<open>\<^verbatim>\<open>s.includes(p)\<close>: \<open>p\<close> occurs in \<open>s\<close> as a contiguous block.\<close>

fun str_includes :: "jsstring \<Rightarrow> jsstring \<Rightarrow> bool" where
  "str_includes [] p = (p = [])"
| "str_includes (c # cs) p = (prefix p (c # cs) \<or> str_includes cs p)"

text \<open>\<^verbatim>\<open>phoneNumber.replace(/[-\s]/g, '')\<close>: dashes and white space are removed.\<close>

definition sanitize :: "jsstring \<Rightarrow> jsstring" where
  "sanitize p = filter (\<lambda>c. \<not> (c = 0x2D \<or> is_space c)) p"

subsection \<open>The module state\<close>

text \<open>
  The socket object of the transport library, as far as the service looks at it:
  whether \<^verbatim>\<open>typeof sock.sendMessage === 'function'\<close>, and whether \<^verbatim>\<open>sock.end()\<close> raises.
\<close>

record socket =
  sendCapable :: bool
  endThrows :: bool

datatype auth_failure_msg = LoggedOutFromWhatsApp | MaximumAttemptsReached

datatype auto_clear_reason = Unauthorized401 | Recovery405Failed

text \<open>One constructor for each channel the service broadcasts on.\<close>

datatype notification =
    NQr jsstring
  | NQrMain jsstring
  | NReady nat bool
  | NSessionConnected nat
  | NRecovery405Attempted
  | NSessionAutoCleared auto_clear_reason
  | NConnectionFailure "nat option" jsstring
  | NAuthFailure auth_failure_msg
  | NInitFailure nat
  | NSessionCleared

text \<open>The callbacks the service hands to \<^verbatim>\<open>setTimeout\<close>.\<close>

datatype timer_action =
    AutoReadyAfterQr
  | AutoReadyAfterMessages
  | RetryInitialize
  | Resume405

text \<open>
  \<open>sock\<close> to \<open>isInitializing\<close> are the variables of the module. \<open>timers\<close> holds the
  callbacks scheduled and not yet run, each with its delay in milliseconds;
  \<open>notifications\<close> the broadcasts made so far; \<open>clock\<close> is what \<^verbatim>\<open>Date.now()\<close> returns;
  \<open>sessionDir\<close> says whether the session directory (the persisted credentials) exists, and
  \<open>rmThrows\<close> whether \<^verbatim>\<open>fs.rmSync\<close> on it raises.
\<close>

record state =
  sock :: "socket option"
  lastQr :: "jsstring option"
  isReady :: bool
  lastReadyAt :: "nat option"
  initializationAttempts :: nat
  isInitializing :: bool
  timers :: "(nat \<times> timer_action) list"
  notifications :: "notification list"
  clock :: nat
  sessionDir :: bool
  rmThrows :: bool

definition MAX_INITIALIZATION_ATTEMPTS :: nat where
  "MAX_INITIALIZATION_ATTEMPTS = 5"

definition broadcast :: "notification \<Rightarrow> state \<Rightarrow> state" where
  "broadcast n s = s\<lparr>notifications := notifications s @ [n]\<rparr>"

definition setTimeout :: "timer_action \<Rightarrow> nat \<Rightarrow> state \<Rightarrow> state" where
  "setTimeout a ms s = s\<lparr>timers := timers s @ [(ms, a)]\<rparr>"

text \<open>
  \<^verbatim>\<open>try { sock.end(); sock = null } catch { }\<close> under \<^verbatim>\<open>if (sock)\<close>: when \<^verbatim>\<open>end\<close> raises, the
  assignment is skipped and the old socket stays.
\<close>

definition endSocket :: "state \<Rightarrow> state" where
  "endSocket s =
     (case sock s of
        None \<Rightarrow> s
      | Some k \<Rightarrow> if endThrows k then s else s\<lparr>sock := None\<rparr>)"

subsection \<open>clearSessionData\<close>

definition clearSessionData :: "state \<Rightarrow> state" where
  "clearSessionData s =
     (let s1 = endSocket s;
          s2 = s1\<lparr>isReady := False, lastQr := None, initializationAttempts := 0,
                  isInitializing := False\<rparr>;
          s3 = (if sessionDir s2 \<and> \<not> rmThrows s2 then s2\<lparr>sessionDir := False\<rparr> else s2)
      in broadcast NSessionCleared s3)"

subsection \<open>attemptReinitialization\<close>

text \<open>The delay in milliseconds, from the value of \<open>initializationAttempts\<close>.\<close>

definition reinitDelay :: "nat \<Rightarrow> nat" where
  "reinitDelay a = (if a \<le> 2 then (a + 1) * 3000 else (a + 1) * 5000)"

definition attemptReinitialization :: "state \<Rightarrow> state" where
  "attemptReinitialization s =
     (if initializationAttempts s < MAX_INITIALIZATION_ATTEMPTS
      then setTimeout RetryInitialize (reinitDelay (initializationAttempts s)) s
      else broadcast (NAuthFailure MaximumAttemptsReached) (clearSessionData s))"

subsection \<open>initializeClient\<close>

text \<open>
  What the environment does inside the \<^verbatim>\<open>try\<close> block of \<^verbatim>\<open>initializeClient\<close>: either the file
  system calls, \<^verbatim>\<open>useMultiFileAuthState\<close> and \<^verbatim>\<open>makeWASocket\<close> all return, and the library
  hands back a socket; or one of them raises, before or after the session directory was
  made (the flag says whether it was made).
\<close>

datatype init_outcome = InitOk socket | InitThrows bool

datatype completion = Returned | Raised

text \<open>
  The function is taken as one step: the suspension at \<^verbatim>\<open>await useMultiFileAuthState\<close> lies
  after \<open>isInitializing\<close> is set, so a call that arrives during it takes the first branch.
\<close>

definition initializeClient :: "init_outcome \<Rightarrow> state \<Rightarrow> completion \<times> state" where
  "initializeClient out s =
     (if isInitializing s then (Returned, s)
      else
        let s1 = s\<lparr>isInitializing := True,
                   initializationAttempts := initializationAttempts s + 1\<rparr>
        in if sock s1 \<noteq> None \<and> isReady s1 then (Returned, s1\<lparr>isInitializing := False\<rparr>)
           else
             let s2 = endSocket s1
             in case out of
                  InitOk k \<Rightarrow> (Returned, s2\<lparr>sessionDir := True, sock := Some k\<rparr>)
                | InitThrows made \<Rightarrow>
                    let s3 = s2\<lparr>sessionDir := (sessionDir s2 \<or> made)\<rparr>;
                        s4 = s3\<lparr>isReady := False, lastQr := None, isInitializing := False\<rparr>;
                        s5 = broadcast (NInitFailure (initializationAttempts s4)) s4
                    in (Raised,
                        if initializationAttempts s5 < MAX_INITIALIZATION_ATTEMPTS
                        then attemptReinitialization s5
                        else clearSessionData s5))"

subsection \<open>handle405Error\<close>

text \<open>
  An \<^verbatim>\<open>async\<close> function runs up to its first \<^verbatim>\<open>await\<close> inside the call: \<open>handle405Error\<close> is
  that part, and \<open>handle405Error_resume\<close> is the rest, run when the 2000 ms timer fires,
  together with the \<^verbatim>\<open>then\<close> callback the close handler attaches to the promise.
\<close>

definition handle405Error :: "state \<Rightarrow> state" where
  "handle405Error s = setTimeout Resume405 2000 (clearSessionData s)"

definition handle405Error_resume :: "init_outcome \<Rightarrow> state \<Rightarrow> state" where
  "handle405Error_resume out s =
     (let s1 = s\<lparr>initializationAttempts := 0, isInitializing := False\<rparr>
      in case initializeClient out s1 of
           (Returned, s2) \<Rightarrow> broadcast NRecovery405Attempted s2
         | (Raised, s2) \<Rightarrow> broadcast (NSessionAutoCleared Recovery405Failed) (clearSessionData s2))"

subsection \<open>The handler of connection.update\<close>

datatype connection = Connecting | ConnOpen | ConnClose

text \<open>
  \<^verbatim>\<open>lastDisconnect.error\<close>: whether it is an instance of \<^verbatim>\<open>Boom\<close>, its
  \<^verbatim>\<open>output.statusCode\<close> and its \<^verbatim>\<open>message\<close>, each of which may be undefined.
\<close>

record close_error =
  isBoom :: bool
  statusCode :: "nat option"
  message :: "jsstring option"

record update =
  connection :: "connection option"
  qr :: "jsstring option"
  lastDisconnectError :: "close_error option"

text \<open>
  The \<^verbatim>\<open>if (qr)\<close> block. The flag returned says whether the handler left through the
  \<^verbatim>\<open>return\<close> of the blank-code check, which skips the rest of the handler.
\<close>

definition on_qr :: "jsstring \<Rightarrow> state \<Rightarrow> bool \<times> state" where
  "on_qr q s =
     (let s1 = s\<lparr>lastQr := Some q\<rparr>
      in if trim q = [] then (True, s1)
         else (False, setTimeout AutoReadyAfterQr 30000
                        (broadcast (NQrMain q) (broadcast (NQr q) s1))))"

text \<open>
  The branch \<^verbatim>\<open>connection === 'close'\<close>. \<open>lo\<close> is \<^verbatim>\<open>DisconnectReason.loggedOut\<close>, a constant of
  the transport library.
\<close>

definition shouldReconnect :: "nat \<Rightarrow> close_error option \<Rightarrow> bool" where
  "shouldReconnect lo err =
     (case err of
        None \<Rightarrow> True
      | Some e \<Rightarrow> if isBoom e then statusCode e \<noteq> Some lo else True)"

definition on_close :: "nat \<Rightarrow> close_error option \<Rightarrow> state \<Rightarrow> state" where
  "on_close lo err s =
     (let errorCode = (case err of None \<Rightarrow> None | Some e \<Rightarrow> statusCode e);
          errorMessage = (case err of
                            None \<Rightarrow> js ''Unknown error''
                          | Some e \<Rightarrow>
                              (case message e of
                                 None \<Rightarrow> js ''Unknown error''
                               | Some msg \<Rightarrow> if msg = [] then js ''Unknown error'' else msg));
          s1 = (if errorCode = Some 405 then handle405Error s
                else if errorCode = Some 401
                then broadcast (NSessionAutoCleared Unauthorized401) (clearSessionData s)
                else s)
      in if shouldReconnect lo err
         then attemptReinitialization
                (broadcast (NConnectionFailure errorCode errorMessage)
                   (s1\<lparr>isReady := False, lastQr := None, isInitializing := False\<rparr>))
         else (broadcast (NAuthFailure LoggedOutFromWhatsApp)
                 (s1\<lparr>isReady := False, lastQr := None\<rparr>))\<lparr>isInitializing := False\<rparr>)"

text \<open>The branch \<^verbatim>\<open>connection === 'open'\<close>.\<close>

definition on_open :: "state \<Rightarrow> state" where
  "on_open s =
     (let s1 = s\<lparr>isReady := True, lastReadyAt := Some (clock s)\<rparr>;
          s2 = broadcast (NReady (clock s) False) s1;
          s3 = broadcast (NSessionConnected (clock s)) s2
      in s3\<lparr>isInitializing := False, initializationAttempts := 0\<rparr>)"

definition on_connection_update :: "nat \<Rightarrow> update \<Rightarrow> state \<Rightarrow> state" where
  "on_connection_update lo u s =
     (let (left, s1) = (case qr u of
                          None \<Rightarrow> (False, s)
                        | Some q \<Rightarrow> if q = [] then (False, s) else on_qr q s)
      in if left then s1
         else case connection u of
                Some ConnClose \<Rightarrow> on_close lo (lastDisconnectError u) s1
              | Some ConnOpen \<Rightarrow> on_open s1
              | _ \<Rightarrow> s1)"

text \<open>The events of the transport as the specification names them.\<close>

definition qrEvent :: "jsstring \<Rightarrow> update" where
  "qrEvent q = \<lparr>connection = None, qr = Some q, lastDisconnectError = None\<rparr>"

definition connectionOpened :: update where
  "connectionOpened = \<lparr>connection = Some ConnOpen, qr = None, lastDisconnectError = None\<rparr>"

definition connectionClosed :: "close_error option \<Rightarrow> update" where
  "connectionClosed err = \<lparr>connection = Some ConnClose, qr = None, lastDisconnectError = err\<rparr>"

subsection \<open>The handler of messages.upsert\<close>

text \<open>\<open>n\<close> is the number of messages of the event (0 when the field is missing).\<close>

definition on_messages_upsert :: "nat \<Rightarrow> state \<Rightarrow> state" where
  "on_messages_upsert n s =
     (if \<not> isReady s \<and> n > 0 then setTimeout AutoReadyAfterMessages 3000 s else s)"

subsection \<open>Timer callbacks\<close>

fun fire :: "timer_action \<Rightarrow> init_outcome \<Rightarrow> state \<Rightarrow> state" where
  "fire AutoReadyAfterQr out s =
     (case sock s of
        None \<Rightarrow> s
      | Some k \<Rightarrow>
          if \<not> isReady s \<and> lastQr s \<noteq> None \<and> lastQr s \<noteq> Some [] then
            if sendCapable k
            then broadcast (NReady (clock s) True)
                   (s\<lparr>isReady := True, lastReadyAt := Some (clock s)\<rparr>)
            else s
          else s)"
| "fire AutoReadyAfterMessages out s =
     (if \<not> isReady s \<and> sock s \<noteq> None
      then s\<lparr>isReady := True, lastReadyAt := Some (clock s)\<rparr>
      else s)"
| "fire RetryInitialize out s = snd (initializeClient out (s\<lparr>isInitializing := False\<rparr>))"
| "fire Resume405 out s = handle405Error_resume out s"

subsection \<open>Runs of the service\<close>

text \<open>
  What can happen to the module between two of its own steps: an event of the socket, a
  pending timer that fires (with what the environment then does to an initialization the
  callback starts), time that passes, and a call of an exported function.
\<close>

datatype input =
    ConnectionUpdate update
  | MessagesUpsert nat
  | TimerFires nat init_outcome
  | Tick nat
  | CallInitializeClient init_outcome
  | CallClearSessionData

definition step :: "nat \<Rightarrow> input \<Rightarrow> state \<Rightarrow> state" where
  "step lo i s =
     (case i of
        ConnectionUpdate u \<Rightarrow> on_connection_update lo u s
      | MessagesUpsert n \<Rightarrow> on_messages_upsert n s
      | TimerFires j out \<Rightarrow>
          if j < length (timers s)
          then fire (snd (timers s ! j)) out
                 (s\<lparr>timers := take j (timers s) @ drop (Suc j) (timers s)\<rparr>)
          else s
      | Tick n \<Rightarrow> s\<lparr>clock := clock s + n\<rparr>
      | CallInitializeClient out \<Rightarrow> snd (initializeClient out s)
      | CallClearSessionData \<Rightarrow> clearSessionData s)"

definition run :: "nat \<Rightarrow> input list \<Rightarrow> state \<Rightarrow> state" where
  "run lo is s = foldl (\<lambda>s' i. step lo i s') s is"

text \<open>The state of the module when it is loaded.\<close>

definition initial :: state where
  "initial = \<lparr>sock = None, lastQr = None, isReady = False, lastReadyAt = None,
     initializationAttempts = 0, isInitializing = False, timers = [], notifications = [],
     clock = 0, sessionDir = False, rmThrows = False\<rparr>"

subsection \<open>sendMessage\<close>

datatype send_error =
    NotInitialized
  | NotProperlyInitialized
  | NullSocketTypeError
  | InvalidPhoneNumber
  | InvalidMessage
  | PhoneTooShort
  | SendFailed nat "jsstring option"

text \<open>
  What \<^verbatim>\<open>sock.sendMessage\<close> does with one call: its promise resolves, it is rejected with
  an error (whose \<^verbatim>\<open>message\<close> may be undefined), or it stays pending until the 30 s
  timeout of the service rejects the race.
\<close>

datatype send_outcome = SendResolves | SendRejects "jsstring option" | SendHangs

text \<open>What one call of \<open>sendMessage\<close> does, in order, besides changing the module state.\<close>

datatype action =
    WaitForReady nat
  | TransportSend jsstring jsstring
  | RetryDelay nat
  | ReinitializeConnection

text \<open>
  The places where \<open>sendMessage\<close> is suspended, so that other handlers run: the polls for
  readiness (retry count and poll number), the pending send, the delay before a retry, and
  the delay inside \<open>reinitializeConnection\<close>.
\<close>

datatype wait_point =
    ReadyPoll nat nat
  | SendInFlight nat
  | BeforeRetry nat
  | ReinitCleanup

text \<open>
  The environment of one call: what happens to the module at each suspension, what the
  transport answers to the send made at each retry count, and what it does to the
  initialization started by \<open>reinitializeConnection\<close>.
\<close>

record env =
  events :: "wait_point \<Rightarrow> input list"
  sendOutcome :: "nat \<Rightarrow> send_outcome"
  reinitOutcome :: init_outcome

definition MAX_RETRIES :: nat where
  "MAX_RETRIES = 3"

definition RETRY_DELAY :: nat where
  "RETRY_DELAY = 1000"

text \<open>
  The loop \<^verbatim>\<open>while (!isReady && waitAttempts < maxWaitAttempts && sock)\<close>, one second of sleep
  in each turn.
\<close>

function waitForReady :: "nat \<Rightarrow> env \<Rightarrow> nat \<Rightarrow> nat \<Rightarrow> state \<Rightarrow> action list \<times> state" where
  "waitForReady lo e r w s =
     (if \<not> isReady s \<and> w < 5 \<and> sock s \<noteq> None
      then let (tr, s') = waitForReady lo e r (w + 1) (run lo (events e (ReadyPoll r w)) s)
           in (WaitForReady 1000 # tr, s')
      else ([], s))"
  by pat_completeness auto
termination
  by (relation "measure (\<lambda>(lo, e, r, w, s). 5 - w)") auto

declare waitForReady.simps [simp del]

definition reinitializeConnection :: "nat \<Rightarrow> env \<Rightarrow> state \<Rightarrow> completion \<times> state" where
  "reinitializeConnection lo e s =
     (let s1 = endSocket s;
          s2 = s1\<lparr>isReady := False, lastQr := None\<rparr>;
          s3 = run lo (events e ReinitCleanup) s2
      in initializeClient (reinitOutcome e) s3)"

text \<open>The checks of the two arguments, in the order of the source.\<close>

definition validate :: "jsstring \<Rightarrow> jsstring \<Rightarrow> send_error + jsstring" where
  "validate phoneNumber msg =
     (if phoneNumber = [] then Inl InvalidPhoneNumber
      else if msg = [] \<or> length (trim msg) = 0 then Inl InvalidMessage
      else
        let sanitizedNumber = sanitize phoneNumber
        in if sanitizedNumber = [] \<or> length sanitizedNumber < 8 then Inl PhoneTooShort
           else Inr (if prefix (js ''+'') sanitizedNumber then sanitizedNumber
                     else js ''+'' @ sanitizedNumber))"

definition isRecoverableError :: "jsstring option \<Rightarrow> bool" where
  "isRecoverableError m =
     (case m of
        None \<Rightarrow> False
      | Some t \<Rightarrow>
          t \<noteq> [] \<and>
          (str_includes t (js ''attrs'') \<or>
           str_includes t (js ''undefined'') \<or>
           str_includes t (js ''Cannot read properties'') \<or>
           str_includes t (js ''Connection lost'') \<or>
           str_includes t (js ''timeout'') \<or>
           str_includes t (js ''network'') \<or>
           str_includes t (js ''ECONNRESET'') \<or>
           str_includes t (js ''ENOTFOUND'')))"

text \<open>The error the \<^verbatim>\<open>catch\<close> block sees for an outcome other than \<open>SendResolves\<close>.\<close>

definition caughtMessage :: "send_outcome \<Rightarrow> jsstring option" where
  "caughtMessage out =
     (case out of
        SendRejects m \<Rightarrow> m
      | _ \<Rightarrow> Some (js ''Message send timeout''))"

text \<open>
  The result is what the promise of \<open>sendMessage\<close> settles with (\<open>Inl\<close> the error it is
  rejected with, \<open>Inr\<close> the \<^verbatim>\<open>phoneNumber\<close> field of the value it resolves with), the actions
  of the call and the module state it leaves.
\<close>

function sendMessage ::
  "nat \<Rightarrow> env \<Rightarrow> jsstring \<Rightarrow> jsstring \<Rightarrow> nat \<Rightarrow> state
     \<Rightarrow> (send_error + jsstring) \<times> action list \<times> state" where
  "sendMessage lo e phoneNumber msg retryCount s =
     (case sock s of
        None \<Rightarrow> (Inl NotInitialized, [], s)
      | Some k \<Rightarrow>
          if \<not> isReady s \<and> \<not> sendCapable k then (Inl NotProperlyInitialized, [], s)
          else
            let (tr1, s1) = (if \<not> isReady s then waitForReady lo e retryCount 0 s else ([], s))
            in (case sock s1 of
                  None \<Rightarrow> (Inl NullSocketTypeError, tr1, s1)
                | Some k1 \<Rightarrow>
                    if \<not> sendCapable k1 then (Inl NotProperlyInitialized, tr1, s1)
                    else
                      (case validate phoneNumber msg of
                         Inl err \<Rightarrow> (Inl err, tr1, s1)
                       | Inr finalNumber \<Rightarrow>
                           let sent = TransportSend (finalNumber @ js ''@s.whatsapp.net'')
                                        (trim msg);
                               s2 = run lo (events e (SendInFlight retryCount)) s1
                           in if sendOutcome e retryCount = SendResolves
                              then (Inr finalNumber, tr1 @ [sent], s2)
                              else
                                let m = caughtMessage (sendOutcome e retryCount)
                                in if isRecoverableError m \<and> retryCount < MAX_RETRIES
                                   then
                                     let s3 = run lo (events e (BeforeRetry retryCount)) s2;
                                         (tr2, s4) =
                                            (if retryCount = 0
                                             then ([ReinitializeConnection],
                                                   snd (reinitializeConnection lo e s3))
                                             else ([], s3));
                                         (res, tr3, s5) =
                                            sendMessage lo e phoneNumber msg (retryCount + 1) s4
                                     in (res,
                                         tr1 @ [sent, RetryDelay RETRY_DELAY] @ tr2 @ tr3,
                                         s5)
                                   else (Inl (SendFailed (retryCount + 1) m),
                                         tr1 @ [sent], s2))))"
  by pat_completeness auto
termination
  by (relation "measure (\<lambda>(lo, e, p, m, r, s). MAX_RETRIES - r)") auto

declare sendMessage.simps [simp del]

subsection \<open>Reading the actions of a call\<close>

fun isSend :: "action \<Rightarrow> bool" where
  "isSend (TransportSend _ _) = True"
| "isSend _ = False"

fun isRetryDelay :: "action \<Rightarrow> bool" where
  "isRetryDelay (RetryDelay _) = True"
| "isRetryDelay _ = False"

fun isWait :: "action \<Rightarrow> bool" where
  "isWait (WaitForReady _) = True"
| "isWait _ = False"

text \<open>The number of calls of \<^verbatim>\<open>sock.sendMessage\<close>, and of waits of \<open>RETRY_DELAY\<close>.\<close>

definition sends :: "action list \<Rightarrow> nat" where
  "sends tr = length (filter isSend tr)"

definition delays :: "action list \<Rightarrow> nat" where
  "delays tr = length (filter isRetryDelay tr)"


text \<open>The errors that reject the arguments of \<open>sendMessage\<close>.\<close>

definition isInvalidInput :: "send_error \<Rightarrow> bool" where
  "isInvalidInput err \<longleftrightarrow>
     err = InvalidPhoneNumber \<or> err = InvalidMessage \<or> err = PhoneTooShort"





subsection \<open>Concrete sockets, errors, states and runs\<close>

definition okSocket :: socket where
  "okSocket = \<lparr>sendCapable = True, endThrows = False\<rparr>"

text \<open>A \<^verbatim>\<open>Boom\<close> error with a status code, and an error of another class with one.\<close>

definition boom :: "nat \<Rightarrow> close_error" where
  "boom c = \<lparr>isBoom = True, statusCode = Some c, message = None\<rparr>"


text \<open>The module after a first, successful call of \<open>initializeClient\<close>.\<close>

definition startedState :: state where
  "startedState = snd (initializeClient (InitOk okSocket) initial)"

text \<open>The module after the connection of that socket has opened.\<close>

definition openState :: state where
  "openState = on_connection_update 401 connectionOpened startedState"

text \<open>
  A first initialization that succeeds and whose connection closes with code 428; a
  reinitialization, started by the pending timer, that succeeds and whose connection
  closes with code 428 again; and the module after two and after four such rounds.
\<close>

definition firstRound :: "input list" where
  "firstRound = [CallInitializeClient (InitOk okSocket),
                 ConnectionUpdate (connectionClosed (Some (boom 428)))]"

definition laterRound :: "input list" where
  "laterRound = [TimerFires 0 (InitOk okSocket),
                 ConnectionUpdate (connectionClosed (Some (boom 428)))]"

definition twoRounds :: state where
  "twoRounds = run 401 (firstRound @ laterRound) initial"

definition fourRounds :: state where
  "fourRounds = run 401 (firstRound @ laterRound @ laterRound @ laterRound) initial"

text \<open>
  The module after \<open>k\<close> such rounds: the socket of the last initialization is held, the
  counter is \<open>k\<close>, the session directory exists, one reinitialization is pending and \<open>k\<close>
  connection failures have been broadcast.
\<close>

definition roundState :: "nat \<Rightarrow> state" where
  "roundState k = initial\<lparr>sock := Some okSocket, initializationAttempts := k,
     sessionDir := True, timers := [(reinitDelay k, RetryInitialize)],
     notifications := replicate k (NConnectionFailure (Some 428) (js ''Unknown error''))\<rparr>"






text \<open>
  An environment in which nothing happens during the suspensions and every send is
  accepted, and one in which every send stays pending.
\<close>

definition quietEnv :: env where
  "quietEnv = \<lparr>events = (\<lambda>_. []), sendOutcome = (\<lambda>_. SendResolves),
                reinitOutcome = InitOk okSocket\<rparr>"



text \<open>
  An update whose \<^verbatim>\<open>qr\<close> field is a non-empty string of white space only: the handler
  returns at the check of the code and does not look at \<^verbatim>\<open>connection\<close>.
\<close>

definition leavesAtBlankQr :: "update \<Rightarrow> bool" where
  "leavesAtBlankQr u = (case qr u of None \<Rightarrow> False | Some q \<Rightarrow> q \<noteq> [] \<and> trim q = [])"

text \<open>An input that is an update with \<^verbatim>\<open>connection === 'open'\<close>.\<close>

definition opens :: "input \<Rightarrow> bool" where
  "opens i = (case i of ConnectionUpdate u \<Rightarrow> connection u = Some ConnOpen | _ \<Rightarrow> False)"

text \<open>
  Two runs from the loaded module: a pairing code arrives and its 30 s timer fires; a
  message arrives and its 3 s timer fires.
\<close>

definition qrAutoReadyRun :: "input list" where
  "qrAutoReadyRun = [CallInitializeClient (InitOk okSocket),
     ConnectionUpdate (qrEvent (js ''ABC'')), Tick 30000, TimerFires 0 (InitThrows False)]"

definition messageAutoReadyRun :: "input list" where
  "messageAutoReadyRun = [CallInitializeClient (InitOk okSocket), MessagesUpsert 1,
     Tick 3000, TimerFires 0 (InitThrows False)]"

section \<open>Properties\<close>

subsection \<open>Fields after the basic operations\<close>

lemma clearSessionData_fields:
  "isReady (clearSessionData s) = False"
  "lastQr (clearSessionData s) = None"
  "initializationAttempts (clearSessionData s) = 0"
  "isInitializing (clearSessionData s) = False"
  "timers (clearSessionData s) = timers s"
  "clock (clearSessionData s) = clock s"
  "rmThrows (clearSessionData s) = rmThrows s"
  "notifications (clearSessionData s) = notifications s @ [NSessionCleared]"
  "sessionDir (clearSessionData s) = (sessionDir s \<and> rmThrows s)"
  by (auto simp: clearSessionData_def endSocket_def broadcast_def Let_def split: option.splits)

lemma startedState_fields:
  "sock startedState = Some okSocket"
  "isInitializing startedState"
  "\<not> isReady startedState"
  "lastQr startedState = None"
  "initializationAttempts startedState = 1"
  "timers startedState = []"
  "notifications startedState = []"
  "clock startedState = 0"
  "sessionDir startedState"
  "\<not> rmThrows startedState"
  by (simp_all add: startedState_def initializeClient_def initial_def endSocket_def Let_def)

lemma on_open_fields:
  "initializationAttempts (on_open s) = 0"
  "isReady (on_open s)"
  "lastReadyAt (on_open s) = Some (clock s)"
  "NReady (clock s) False \<in> set (notifications (on_open s))"
  "isInitializing (on_open s) = False"
  by (simp_all add: on_open_def broadcast_def Let_def)

lemma openState_fields:
  "sock openState = Some okSocket"
  "isReady openState"
  "sendCapable okSocket"
  "timers openState = []"
  "notifications openState = [NReady 0 False, NSessionConnected 0]"
  "sessionDir openState"
  "\<not> rmThrows openState"
  by (simp_all add: openState_def on_connection_update_def connectionOpened_def on_open_def
      broadcast_def Let_def startedState_fields okSocket_def)

lemma on_close_reconnect_timer:
  "shouldReconnect lo err \<Longrightarrow> initializationAttempts s = 0 \<Longrightarrow>
     last (timers (on_close lo err s)) = (reinitDelay 0, RetryInitialize)"
  by (simp add: on_close_def attemptReinitialization_def setTimeout_def handle405Error_def
      clearSessionData_fields broadcast_def MAX_INITIALIZATION_ATTEMPTS_def Let_def)


lemma update_open:
  assumes "connection u = Some ConnOpen" and "\<not> leavesAtBlankQr u"
  shows "\<exists>s1. on_connection_update lo u s = on_open s1 \<and> clock s1 = clock s"
  using assms
  by (auto simp: on_connection_update_def leavesAtBlankQr_def on_qr_def Let_def
      setTimeout_def broadcast_def split: option.splits)

lemma update_closed:
  "on_connection_update lo (connectionClosed err) s = on_close lo err s"
  by (simp add: on_connection_update_def connectionClosed_def)

lemma run_nil: "run lo [] s = s"
  by (simp add: run_def)

lemma run_append: "run lo (xs @ ys) s = run lo ys (run lo xs s)"
  by (simp add: run_def)

lemma run_Cons: "run lo (i # is) s = run lo is (step lo i s)"
  by (simp add: run_def)

lemma close_428:
  "on_connection_update 401 (connectionClosed (Some (boom 428))) s =
     attemptReinitialization
       (broadcast (NConnectionFailure (Some 428) (js ''Unknown error''))
          (s\<lparr>isReady := False, lastQr := None, isInitializing := False\<rparr>))"
  by (simp add: update_closed on_close_def boom_def shouldReconnect_def Let_def)

lemma firstRound_state: "run 401 firstRound initial = roundState 1"
  by (simp add: firstRound_def run_Cons run_nil step_def close_428 initializeClient_def
      initial_def endSocket_def roundState_def attemptReinitialization_def
      MAX_INITIALIZATION_ATTEMPTS_def setTimeout_def broadcast_def Let_def)

lemma laterRound_state:
  assumes "k < 4"
  shows "run 401 laterRound (roundState k) = roundState (Suc k)"
  using assms
  by (simp add: laterRound_def run_Cons run_nil step_def close_428 initializeClient_def
      initial_def endSocket_def roundState_def attemptReinitialization_def
      MAX_INITIALIZATION_ATTEMPTS_def setTimeout_def broadcast_def Let_def
      replicate_append_same)

lemma twoRounds_state: "twoRounds = roundState 2"
  by (simp add: twoRounds_def run_append firstRound_state laterRound_state numeral_2_eq_2)

lemma fourRounds_state: "fourRounds = roundState 4"
proof -
  have "fourRounds = run 401 laterRound (run 401 laterRound (run 401 laterRound (roundState 1)))"
    by (simp add: fourRounds_def run_append firstRound_state)
  also have "\<dots> = roundState (Suc (Suc (Suc 1)))"
    by (simp add: laterRound_state)
  finally show ?thesis by (simp add: numeral_eq_Suc)
qed

lemma twoRounds_fields:
  "initializationAttempts twoRounds = 2"
  "timers twoRounds = [(9000, RetryInitialize)]"
  by (simp_all add: twoRounds_state roundState_def reinitDelay_def)

lemma fourRounds_fields:
  "initializationAttempts fourRounds = 4"
  "\<not> isInitializing fourRounds"
  "\<not> isReady fourRounds"
  "sock fourRounds = Some okSocket"
  "sessionDir fourRounds"
  "\<not> rmThrows fourRounds"
  "timers fourRounds = [(25000, RetryInitialize)]"
  "notifications fourRounds = replicate 4 (NConnectionFailure (Some 428) (js ''Unknown error''))"
  by (simp_all add: fourRounds_state roundState_def reinitDelay_def initial_def)

subsection \<open>The delay before a reinitialization\<close>

text \<open>
  C1 says that the delay is (a+1) * 3 s for the attempt counts 0 and 1 and (a+1) * 5 s
  from 2 on, doubled after a close that the server rejected. The code does otherwise at
  two places, each against its own comments. The first tier is
  \<^verbatim>\<open>initializationAttempts <= 2\<close>: with the counter at 2 the delay is 9 s, not 15 s, as in
  the run of two rounds, whose second close finds the counter at 2. And the delay does not
  look at the reason of the close: after a first initialization, a close with code 428
  schedules the reinitialization after 6 s, and a close with code 405, whose recovery has
  reset the counter, after 3 s, beside the 2 s timer of that recovery.
\<close>

theorem C1_delays_scheduled:
  "reinitDelay 2 = 9000 \<and> reinitDelay 2 \<noteq> (2 + 1) * 5000 \<and>
   initializationAttempts twoRounds = 2 \<and>
   timers twoRounds = [(9000, RetryInitialize)] \<and>
   timers (on_close 401 (Some (boom 428)) startedState) = [(6000, RetryInitialize)] \<and>
   timers (on_close 401 (Some (boom 405)) startedState)
     = [(2000, Resume405), (3000, RetryInitialize)]"
  by (simp add: reinitDelay_def on_close_def startedState_fields twoRounds_fields boom_def
      shouldReconnect_def handle405Error_def clearSessionData_fields broadcast_def
      setTimeout_def attemptReinitialization_def MAX_INITIALIZATION_ATTEMPTS_def Let_def)

subsection \<open>The connection closes\<close>








subsection \<open>The connection opens\<close>

text \<open>
  C5: when an update with \<^verbatim>\<open>connection === 'open'\<close> is processed, the attempt counter is 0
  afterwards, \<open>isReady\<close> is set, \<open>lastReadyAt\<close> holds the time of the event, and the ready
  notification with that time has been broadcast; a close that reconnects, arriving next,
  schedules the reinitialization with the delay of attempt 0.
\<close>

theorem C5_connection_opened:
  assumes "connection u = Some ConnOpen" and "\<not> leavesAtBlankQr u"
  shows "let s' = on_connection_update lo u s in
     initializationAttempts s' = 0 \<and> isReady s' \<and> lastReadyAt s' = Some (clock s) \<and>
     NReady (clock s) False \<in> set (notifications s') \<and>
     (shouldReconnect lo err \<longrightarrow>
        last (timers (on_close lo err s')) = (reinitDelay 0, RetryInitialize))"
proof -
  obtain s1 where eq: "on_connection_update lo u s = on_open s1" and ck: "clock s1 = clock s"
    using update_open [OF assms] by blast
  show ?thesis
    unfolding Let_def eq
    using on_open_fields [of s1] on_close_reconnect_timer [of lo err "on_open s1"]
    by (simp add: ck)
qed

theorem C5_connection_opened_witness:
  "let s' = on_connection_update 401 connectionOpened startedState in
     initializationAttempts s' = 0 \<and> isReady s' \<and> lastReadyAt s' = Some 0 \<and>
     NReady 0 False \<in> set (notifications s') \<and>
     last (timers (on_close 401 None s')) = (3000, RetryInitialize)"
proof -
  have a: "connection connectionOpened = Some ConnOpen"
    by (simp add: connectionOpened_def)
  have b: "\<not> leavesAtBlankQr connectionOpened"
    by (simp add: connectionOpened_def leavesAtBlankQr_def)
  have d: "shouldReconnect 401 None"
    by (simp add: shouldReconnect_def)
  show ?thesis
    using C5_connection_opened [OF a b, of 401 startedState None] d
    by (simp add: Let_def reinitDelay_def startedState_fields)
qed

subsection \<open>The attempts are used up\<close>

text \<open>
  C8 says that with the attempt counter at the maximum no reconnection is scheduled, the
  credentials are cleared and the permanent failure is notified. After four rounds the
  counter is 4 and one reinitialization is pending. When its initialization succeeds and
  the connection closes once more, \<open>attemptReinitialization\<close> finds the counter at 5: it
  schedules nothing, clears the session and broadcasts the failure of the used-up
  attempts. When that initialization raises instead, the \<^verbatim>\<open>catch\<close> block of
  \<open>initializeClient\<close> finds the counter at 5: it schedules nothing and clears the session,
  but the only broadcasts are the failure of the initialization, sent after every attempt
  that raises, and the cleared session; the failure of the used-up attempts is not
  broadcast on this path. (When the connection of the fifth initialization closes with
  code 405, the recovery of that code resets the counter before it is looked at, and two
  initializations are scheduled.)
\<close>

theorem C8_fifth_attempt:
  "let s5 = step 401 (TimerFires 0 (InitOk okSocket)) fourRounds;
       s' = run 401 laterRound fourRounds;
       t' = step 401 (TimerFires 0 (InitThrows True)) fourRounds
   in initializationAttempts s5 = 5 \<and>
      timers s' = [] \<and> \<not> sessionDir s' \<and>
      notifications s'
        = notifications fourRounds @
          [NConnectionFailure (Some 428) (js ''Unknown error''), NSessionCleared,
           NAuthFailure MaximumAttemptsReached] \<and>
      timers t' = [] \<and> \<not> sessionDir t' \<and>
      notifications t' = notifications fourRounds @ [NInitFailure 5, NSessionCleared] \<and>
      NAuthFailure MaximumAttemptsReached \<notin> set (notifications t') \<and>
      timers (on_connection_update 401 (connectionClosed (Some (boom 405))) s5)
        = [(2000, Resume405), (3000, RetryInitialize)]"
proof -
  have s5: "step 401 (TimerFires 0 (InitOk okSocket)) fourRounds
      = (roundState 4)\<lparr>initializationAttempts := 5, isInitializing := True, timers := []\<rparr>"
    by (simp add: fourRounds_state roundState_def step_def initializeClient_def initial_def
        endSocket_def okSocket_def Let_def)
  have c405: "timers (on_connection_update 401 (connectionClosed (Some (boom 405)))
        ((roundState 4)\<lparr>initializationAttempts := 5, isInitializing := True, timers := []\<rparr>))
      = [(2000, Resume405), (3000, RetryInitialize)]"
    by (simp add: update_closed on_close_def boom_def shouldReconnect_def handle405Error_def
        clearSessionData_fields attemptReinitialization_def MAX_INITIALIZATION_ATTEMPTS_def
        reinitDelay_def setTimeout_def broadcast_def roundState_def Let_def)
  have rest: "let s' = run 401 laterRound fourRounds;
       t' = step 401 (TimerFires 0 (InitThrows True)) fourRounds
   in timers s' = [] \<and> \<not> sessionDir s' \<and>
      notifications s'
        = notifications fourRounds @
          [NConnectionFailure (Some 428) (js ''Unknown error''), NSessionCleared,
           NAuthFailure MaximumAttemptsReached] \<and>
      timers t' = [] \<and> \<not> sessionDir t' \<and>
      notifications t' = notifications fourRounds @ [NInitFailure 5, NSessionCleared] \<and>
      NAuthFailure MaximumAttemptsReached \<notin> set (notifications t')"
    by (simp add: fourRounds_state roundState_def laterRound_def run_Cons run_nil step_def
        close_428 initializeClient_def initial_def endSocket_def okSocket_def
        attemptReinitialization_def MAX_INITIALIZATION_ATTEMPTS_def clearSessionData_def
        setTimeout_def broadcast_def Let_def)
  show ?thesis
    using rest c405 by (simp add: Let_def s5 fourRounds_fields)
qed

subsection \<open>The guard against a second initialization\<close>

text \<open>
  C9: a call of \<open>initializeClient\<close> while \<open>isInitializing\<close> is set returns at once and
  leaves the whole module state as it was.
\<close>

theorem C9_reentrant_initialize:
  "isInitializing s \<Longrightarrow> initializeClient out s = (Returned, s)"
  by (simp add: initializeClient_def)

theorem C9_reentrant_initialize_witness:
  "isInitializing startedState \<and>
   initializeClient (InitThrows True) startedState = (Returned, startedState)"
proof -
  have a: "isInitializing startedState"
    by (simp add: startedState_fields)
  show ?thesis
    using C9_reentrant_initialize [OF a] a by simp
qed

subsection \<open>Readiness without an open connection\<close>

text \<open>
  C10: a pairing code that is not blank schedules a callback after 30 s; when it runs
  with a socket that can send, the code still held and \<open>isReady\<close> unset, it sets \<open>isReady\<close>
  and \<open>lastReadyAt\<close> and broadcasts the ready notification marked as automatic. A
  non-empty batch of messages received while \<open>isReady\<close> is unset schedules a callback
  after 3 s; when it runs with a socket present and \<open>isReady\<close> unset, it sets \<open>isReady\<close>
  and \<open>lastReadyAt\<close>. Both ways lead from the loaded module to a ready one through runs
  in which no update with \<^verbatim>\<open>connection === 'open'\<close> occurs.
\<close>

theorem C10_auto_ready:
  "(sock s = Some k \<and> sendCapable k \<and> \<not> isReady s \<and> lastQr s = Some q \<and> q \<noteq> [] \<longrightarrow>
      fire AutoReadyAfterQr out s
        = broadcast (NReady (clock s) True)
            (s\<lparr>isReady := True, lastReadyAt := Some (clock s)\<rparr>)) \<and>
   (trim q' \<noteq> [] \<longrightarrow>
      timers (on_connection_update lo (qrEvent q') s1)
        = timers s1 @ [(30000, AutoReadyAfterQr)] \<and>
      lastQr (on_connection_update lo (qrEvent q') s1) = Some q') \<and>
   (\<not> isReady s2 \<and> 0 < n \<longrightarrow>
      on_messages_upsert n s2 = setTimeout AutoReadyAfterMessages 3000 s2) \<and>
   (\<not> isReady s3 \<and> sock s3 \<noteq> None \<longrightarrow>
      fire AutoReadyAfterMessages out s3
        = s3\<lparr>isReady := True, lastReadyAt := Some (clock s3)\<rparr>) \<and>
   \<not> list_ex opens qrAutoReadyRun \<and>
   isReady (run lo qrAutoReadyRun initial) \<and>
   notifications (run lo qrAutoReadyRun initial)
     = [NQr (js ''ABC''), NQrMain (js ''ABC''), NReady 30000 True] \<and>
   \<not> list_ex opens messageAutoReadyRun \<and>
   isReady (run lo messageAutoReadyRun initial)"
proof (intro conjI impI)
  show "\<not> list_ex opens qrAutoReadyRun"
    by (simp add: qrAutoReadyRun_def opens_def qrEvent_def)
  show "\<not> list_ex opens messageAutoReadyRun"
    by (simp add: messageAutoReadyRun_def opens_def)
  show "isReady (run lo qrAutoReadyRun initial)"
    by (simp add: qrAutoReadyRun_def run_def step_def initializeClient_def initial_def
        endSocket_def Let_def okSocket_def on_connection_update_def qrEvent_def on_qr_def
        trim_def is_space_def js_def setTimeout_def broadcast_def)
  show "notifications (run lo qrAutoReadyRun initial)
          = [NQr (js ''ABC''), NQrMain (js ''ABC''), NReady 30000 True]"
    by (simp add: qrAutoReadyRun_def run_def step_def initializeClient_def initial_def
        endSocket_def Let_def okSocket_def on_connection_update_def qrEvent_def on_qr_def
        trim_def is_space_def js_def setTimeout_def broadcast_def)
  show "isReady (run lo messageAutoReadyRun initial)"
    by (simp add: messageAutoReadyRun_def run_def step_def initializeClient_def initial_def
        endSocket_def Let_def okSocket_def on_messages_upsert_def setTimeout_def)
next
  assume "sock s = Some k \<and> sendCapable k \<and> \<not> isReady s \<and> lastQr s = Some q \<and> q \<noteq> []"
  then show "fire AutoReadyAfterQr out s
      = broadcast (NReady (clock s) True) (s\<lparr>isReady := True, lastReadyAt := Some (clock s)\<rparr>)"
    by simp
next
  assume q: "trim q' \<noteq> []"
  then have ne: "q' \<noteq> []"
    by (auto simp: trim_def)
  show "timers (on_connection_update lo (qrEvent q') s1) = timers s1 @ [(30000, AutoReadyAfterQr)]"
    using q ne
    by (simp add: on_connection_update_def qrEvent_def on_qr_def Let_def setTimeout_def
        broadcast_def)
  show "lastQr (on_connection_update lo (qrEvent q') s1) = Some q'"
    using q ne
    by (simp add: on_connection_update_def qrEvent_def on_qr_def Let_def setTimeout_def
        broadcast_def)
next
  assume "\<not> isReady s2 \<and> 0 < n"
  then show "on_messages_upsert n s2 = setTimeout AutoReadyAfterMessages 3000 s2"
    by (simp add: on_messages_upsert_def)
next
  assume "\<not> isReady s3 \<and> sock s3 \<noteq> None"
  then show "fire AutoReadyAfterMessages out s3
      = s3\<lparr>isReady := True, lastReadyAt := Some (clock s3)\<rparr>"
    by simp
qed

theorem C10_auto_ready_witness:
  "isReady (fire AutoReadyAfterQr (InitThrows False) (startedState\<lparr>lastQr := Some (js ''ABC'')\<rparr>)) \<and>
   timers (on_connection_update 401 (qrEvent (js ''ABC'')) startedState)
     = [(30000, AutoReadyAfterQr)] \<and>
   timers (on_messages_upsert 1 startedState) = [(3000, AutoReadyAfterMessages)] \<and>
   isReady (fire AutoReadyAfterMessages (InitThrows False) startedState) \<and>
   isReady (run 401 qrAutoReadyRun initial) \<and>
   isReady (run 401 messageAutoReadyRun initial)"
proof -
  have a: "js ''ABC'' \<noteq> []" "trim (js ''ABC'') \<noteq> []" "sendCapable okSocket"
    by (simp_all add: js_def trim_def is_space_def okSocket_def)
  show ?thesis
    using C10_auto_ready [of "startedState\<lparr>lastQr := Some (js ''ABC'')\<rparr>" okSocket "js ''ABC''"
        "InitThrows False" "js ''ABC''" 401 startedState startedState 1 startedState] a
    by (simp add: startedState_fields setTimeout_def broadcast_def)
qed

subsection \<open>The checks of sendMessage\<close>

lemma waitForReady_trace: "list_all isWait (fst (waitForReady lo e r w s))"
proof (induction lo e r w s rule: waitForReady.induct)
  case (1 lo e r w s)
  show ?case
    by (subst waitForReady.simps) (use 1 in \<open>auto split: prod.splits\<close>)
qed

lemma waitForReady_length: "length (fst (waitForReady lo e r w s)) \<le> 5 - w"
proof (induction lo e r w s rule: waitForReady.induct)
  case (1 lo e r w s)
  show ?case
    by (subst waitForReady.simps) (use 1 in \<open>auto split: prod.splits\<close>)
qed


lemma waits_count:
  assumes "list_all isWait tr"
  shows "sends tr = 0" and "delays tr = 0" and "ReinitializeConnection \<notin> set tr"
    and "list_all (\<lambda>a. isRetryDelay a \<longrightarrow> a = RetryDelay 1000) tr"
  using assms by (induction tr; auto simp: sends_def delays_def elim: isWait.elims)+

lemma counts_append:
  "sends (xs @ ys) = sends xs + sends ys"
  "delays (xs @ ys) = delays xs + delays ys"
  "sends (TransportSend j x # ys) = Suc (sends ys)"
  "sends (RetryDelay n # ys) = sends ys"
  "sends (ReinitializeConnection # ys) = sends ys"
  "delays (TransportSend j x # ys) = delays ys"
  "delays (RetryDelay n # ys) = Suc (delays ys)"
  "delays (ReinitializeConnection # ys) = delays ys"
  "sends [] = 0" "delays [] = 0"
  by (simp_all add: sends_def delays_def)

lemma validate_Inl_iff:
  "(\<exists>err. validate p m = Inl err) \<longleftrightarrow> p = [] \<or> trim m = [] \<or> length (sanitize p) < 8"
  by (auto simp: validate_def Let_def trim_def)

lemma validate_Inl_invalid: "validate p m = Inl err \<Longrightarrow> isInvalidInput err"
  by (auto simp: validate_def Let_def isInvalidInput_def split: if_splits)

lemma validate_Inr:
  "p \<noteq> [] \<Longrightarrow> trim m \<noteq> [] \<Longrightarrow> 8 \<le> length (sanitize p) \<Longrightarrow>
   validate p m = Inr (if prefix (js ''+'') (sanitize p) then sanitize p
                       else js ''+'' @ sanitize p)"
  by (auto simp: validate_def Let_def trim_def)

lemma validate_examples:
  "validate (js ''555-1234'') (js ''hi'') = Inl PhoneTooShort"
  "validate (js '''') (js ''hi'') = Inl InvalidPhoneNumber"
  by (simp_all add: validate_def js_def sanitize_def trim_def is_space_def Let_def)

text \<open>The call when the client is ready and its socket can send: no poll is made.\<close>

lemma sendMessage_open:
  assumes "sock s = Some k" and "sendCapable k" and "isReady s"
  shows "sendMessage lo e p m r s =
     (case validate p m of
        Inl err \<Rightarrow> (Inl err, [], s)
      | Inr f \<Rightarrow>
         (let sent = TransportSend (f @ js ''@s.whatsapp.net'') (trim m);
              s2 = run lo (events e (SendInFlight r)) s
          in if sendOutcome e r = SendResolves then (Inr f, [sent], s2)
             else
               let c = caughtMessage (sendOutcome e r)
               in if isRecoverableError c \<and> r < MAX_RETRIES
                  then
                    let s3 = run lo (events e (BeforeRetry r)) s2;
                        (tr2, s4) = (if r = 0
                                     then ([ReinitializeConnection],
                                           snd (reinitializeConnection lo e s3))
                                     else ([], s3));
                        (res, tr3, s5) = sendMessage lo e p m (r + 1) s4
                    in (res, [sent, RetryDelay RETRY_DELAY] @ tr2 @ tr3, s5)
                  else (Inl (SendFailed (r + 1) c), [sent], s2)))"
  by (subst sendMessage.simps)
     (use assms in \<open>auto simp: Let_def split: sum.splits prod.splits\<close>)

text \<open>
  C2, as the specification states it, fails in its first half: on an open connection,
  with a transport that would accept the message, \<^verbatim>\<open>sendMessage("555-1234", "hi")\<close> is
  rejected before any send, because seven characters are left of the number once the dash
  is removed and the service asks for eight.
\<close>

theorem C2_counterexample:
  "sendMessage 401 quietEnv (js ''555-1234'') (js ''hi'') 0 openState
     = (Inl PhoneTooShort, [], openState)"
  by (simp add: validate_examples
      sendMessage_open [OF openState_fields(1) openState_fields(3) openState_fields(2)])

text \<open>
  C2, amended: while the client is ready and its socket can send, the call with target
  \<^verbatim>\<open>"555-1234"\<close> and text \<^verbatim>\<open>"hi"\<close> fails at once with the too-short error, and the call with
  target \<^verbatim>\<open>""\<close> fails at once with the invalid-number error, both without any action; a
  call whose target keeps at least eight characters once dashes and white space are
  removed and whose text is not blank, and whose first send the transport accepts,
  resolves after that one send, without delay, retry or reinitialization.
\<close>

theorem C2_send_when_open:
  assumes "sock s = Some k" and "sendCapable k" and "isReady s"
  shows "sendMessage lo e (js ''555-1234'') (js ''hi'') r s = (Inl PhoneTooShort, [], s) \<and>
         sendMessage lo e (js '''') (js ''hi'') r s = (Inl InvalidPhoneNumber, [], s) \<and>
         (p \<noteq> [] \<and> 8 \<le> length (sanitize p) \<and> trim m \<noteq> [] \<and>
          sendOutcome e r = SendResolves \<longrightarrow>
            (let finalNumber = (if prefix (js ''+'') (sanitize p) then sanitize p
                                else js ''+'' @ sanitize p)
             in sendMessage lo e p m r s =
                  (Inr finalNumber,
                   [TransportSend (finalNumber @ js ''@s.whatsapp.net'') (trim m)],
                   run lo (events e (SendInFlight r)) s)))"
  by (simp add: sendMessage_open [OF assms] validate_examples validate_Inr Let_def)

theorem C2_send_when_open_witness:
  "sendMessage 401 quietEnv (js ''555-1234'') (js ''hi'') 0 openState
     = (Inl PhoneTooShort, [], openState) \<and>
   sendMessage 401 quietEnv (js '''') (js ''hi'') 0 openState
     = (Inl InvalidPhoneNumber, [], openState) \<and>
   sendMessage 401 quietEnv (js ''5555-1234'') (js ''hi'') 0 openState
     = (Inr (js ''+55551234''),
        [TransportSend (js ''+55551234@s.whatsapp.net'') (js ''hi'')], openState)"
proof -
  have a: "js ''5555-1234'' \<noteq> []" "8 \<le> length (sanitize (js ''5555-1234''))"
    "trim (js ''hi'') \<noteq> []" "sendOutcome quietEnv 0 = SendResolves"
    by (simp_all add: js_def sanitize_def trim_def is_space_def quietEnv_def)
  have b: "sanitize (js ''5555-1234'') = js ''55551234''" "trim (js ''hi'') = js ''hi''"
    "events quietEnv (SendInFlight 0) = []"
    by (simp_all add: js_def sanitize_def trim_def is_space_def quietEnv_def)
  show ?thesis
    using C2_send_when_open [OF openState_fields(1) openState_fields(3) openState_fields(2),
        of 401 quietEnv 0 "js ''5555-1234''" "js ''hi''"] a
    by (simp add: b run_nil Let_def) (simp add: js_def)
qed

text \<open>
  C3, as the specification states it, fails where the socket checks come first: in the
  loaded module, with no socket, the empty target is answered with the not-initialized
  error, which is not an error of the arguments; and after an initialization whose
  connection has not opened, the empty target is rejected only after five polls of one
  second.
\<close>

theorem C3_counterexample:
  "sendMessage 401 quietEnv (js '''') (js ''hi'') 0 initial = (Inl NotInitialized, [], initial) \<and>
   \<not> isInvalidInput NotInitialized \<and>
   sendMessage 401 quietEnv (js '''') (js ''hi'') 0 startedState
     = (Inl InvalidPhoneNumber, replicate 5 (WaitForReady 1000), startedState)"
proof -
  have a: "sendMessage 401 quietEnv (js '''') (js ''hi'') 0 initial
      = (Inl NotInitialized, [], initial)"
    by (subst sendMessage.simps) (simp add: initial_def)
  have w: "waitForReady 401 quietEnv 0 0 startedState
      = (replicate 5 (WaitForReady 1000), startedState)"
    by (simp add: waitForReady.simps startedState_fields quietEnv_def run_nil numeral_eq_Suc)
  have b: "sendMessage 401 quietEnv (js '''') (js ''hi'') 0 startedState
      = (Inl InvalidPhoneNumber, replicate 5 (WaitForReady 1000), startedState)"
    by (subst sendMessage.simps)
       (simp add: startedState_fields okSocket_def w validate_examples)
  show ?thesis
    using a b by (simp add: isInvalidInput_def)
qed

text \<open>
  C3, amended: when the target is empty, or keeps fewer than eight characters once dashes
  and white space are removed, or the text is blank, the call fails; it makes no send, no
  retry delay and no reinitialization, only polls for readiness, at most five; the error
  is one of the three errors of the arguments, or one of the three errors of a missing or
  unusable socket; and when the client is ready and its socket can send, the call fails at
  once, with an error of the arguments and the module state untouched.
\<close>

theorem C3_invalid_input:
  assumes "p = [] \<or> length (sanitize p) < 8 \<or> trim m = []"
  shows "\<exists>err tr s'. sendMessage lo e p m r s = (Inl err, tr, s') \<and>
     sends tr = 0 \<and> delays tr = 0 \<and> ReinitializeConnection \<notin> set tr \<and> length tr \<le> 5 \<and>
     (isInvalidInput err \<or> err = NotInitialized \<or> err = NotProperlyInitialized \<or>
      err = NullSocketTypeError) \<and>
     (isReady s \<and> sock s = Some k \<and> sendCapable k \<longrightarrow>
        isInvalidInput err \<and> tr = [] \<and> s' = s)"
proof -
  obtain verr where v: "validate p m = Inl verr"
    using assms validate_Inl_iff [of p m] by blast
  have vi: "isInvalidInput verr"
    using v by (rule validate_Inl_invalid)
  have w: "list_all isWait (fst (waitForReady lo e r 0 s))"
          "length (fst (waitForReady lo e r 0 s)) \<le> 5"
    using waitForReady_trace [of lo e r 0 s] waitForReady_length [of lo e r 0 s] by simp_all
  show ?thesis
    by (subst sendMessage.simps)
       (use v vi w in \<open>auto simp: Let_def waits_count counts_append
          split: option.splits prod.splits\<close>)
qed

theorem C3_invalid_input_witness:
  "sendMessage 401 quietEnv (js '''') (js ''hi'') 0 openState
     = (Inl InvalidPhoneNumber, [], openState) \<and>
   isInvalidInput InvalidPhoneNumber"
proof -
  have a: "js '''' = [] \<or> length (sanitize (js '''')) < 8 \<or> trim (js ''hi'') = []"
    by (simp add: js_def)
  have b: "isReady openState \<and> sock openState = Some okSocket \<and> sendCapable okSocket"
    by (simp add: openState_fields)
  have c: "sendMessage 401 quietEnv (js '''') (js ''hi'') 0 openState
      = (Inl InvalidPhoneNumber, [], openState)"
    by (simp add: validate_examples
        sendMessage_open [OF openState_fields(1) openState_fields(3) openState_fields(2)])
  show ?thesis
    using C3_invalid_input [OF a, of 401 quietEnv 0 openState okSocket] b c
    by (simp add: isInvalidInput_def)
qed

subsection \<open>The retries of sendMessage\<close>





















end
